theory Spec2Isabelle
  imports Main "HOL-Library.Word"
begin

unbundle bit_operations_syntax

section \<open>Buffers, hex strings and errors\<close>

text \<open>
  A Node \<open>Buffer\<close> is a list of bytes. Every \<open>throw\<close> of the source is a value of
  \<open>error\<close>; a function that can throw returns \<open>error + 'a\<close> with \<open>Inl\<close> for the
  failure. The constructors carry the names of the \<open>ERRORS\<close> table entries used by
  \<open>transaction.ts\<close>; \<open>RlpError\<close> is what \<open>createRlpError (context, message)\<close> builds
  (the specification calls it MalformedEncoding), \<open>RangeError\<close> is what
  \<open>String.prototype.repeat\<close> raises on a negative count, and \<open>CapabilityError\<close> is
  any failure raised inside an injected collaborator (codec, signature recovery).
\<close>

type_synonym byte = "8 word"
type_synonym buffer = "byte list"

datatype rlp_message =
    ExpectedAtMostBytes nat
  | ExpectedNoLeadingZeroBytes

datatype error =
    INVALID_TRANSACTION_BODY
  | INVALID_SIGNATURE
  | NOT_SIGNED
  | NOT_DELEGATED
  | INVALID_ADDRESS
  | RlpError string rlp_message
  | RangeError
  | CapabilityError string

text \<open>\<open>buffer.toString ('hex')\<close>: two lowercase hex digits per byte.\<close>

definition hexDigit :: "nat \<Rightarrow> char" where
  "hexDigit n = (if n < 10 then char_of (48 + n) else char_of (87 + n))"

fun toHex :: "buffer \<Rightarrow> string" where
  "toHex [] = []"
| "toHex (b # bs) = hexDigit (unat b div 16) # hexDigit (unat b mod 16) # toHex bs"

text \<open>
  \<open>Buffer.from (s, 'hex')\<close>: Node decodes pairs of hex digits (either case) and stops at
  the first pair that is not two hex digits; a trailing single character is dropped.
\<close>

definition unhex :: "char \<Rightarrow> nat option" where
  "unhex c =
     (let n = (of_char c :: nat) in
      if 48 \<le> n \<and> n \<le> 57 then Some (n - 48)
      else if 97 \<le> n \<and> n \<le> 102 then Some (n - 87)
      else if 65 \<le> n \<and> n \<le> 70 then Some (n - 55)
      else None)"

fun Buffer_from_hex :: "string \<Rightarrow> buffer" where
  "Buffer_from_hex (a # b # rest) =
     (case unhex a of
        None \<Rightarrow> []
      | Some x \<Rightarrow> (case unhex b of
                    None \<Rightarrow> []
                  | Some y \<Rightarrow> of_nat (x * 16 + y) # Buffer_from_hex rest))"
| "Buffer_from_hex _ = []"

section \<open>Compact fixed-width blob helpers (compactfixedhexblobkind.ts)\<close>

definition assertCompactFixedHexBlobBuffer :: "buffer \<Rightarrow> string \<Rightarrow> nat \<Rightarrow> error + unit" where
  "assertCompactFixedHexBlobBuffer buffer context bytes =
     (if length buffer > bytes then Inl (RlpError context (ExpectedAtMostBytes bytes))
      else if length buffer \<noteq> 0 \<and> buffer ! 0 = 0
        then Inl (RlpError context ExpectedNoLeadingZeroBytes)
      else Inr ())"

text \<open>\<open>Array.prototype.findIndex\<close>: the first index whose element satisfies the predicate, \<open>-1\<close> if none.\<close>

fun findIndex :: "('a \<Rightarrow> bool) \<Rightarrow> 'a list \<Rightarrow> int" where
  "findIndex p [] = -1"
| "findIndex p (x # xs) =
     (if p x then 0
      else (let i = findIndex p xs in if i = -1 then -1 else i + 1))"

definition encodeCompactFixedHexBlob :: "buffer \<Rightarrow> buffer" where
  "encodeCompactFixedHexBlob buffer =
     (let zeroIndex = findIndex (\<lambda>byte. byte \<noteq> 0) buffer in
      if zeroIndex \<noteq> -1 then drop (nat zeroIndex) buffer else [])"

text \<open>
  \<open>'0'.repeat ((bytes - buffer.length) * 2)\<close> raises a RangeError when the count is
  negative, which is the case when the buffer is longer than \<open>bytes\<close>.
\<close>

definition decodeBufferToHexWithLeadingZeros :: "buffer \<Rightarrow> nat \<Rightarrow> error + string" where
  "decodeBufferToHexWithLeadingZeros buffer bytes =
     (if (int bytes - int (length buffer)) * 2 < 0 then Inl RangeError
      else Inr (''0x'' @ replicate (nat ((int bytes - int (length buffer)) * 2)) (CHR ''0'')
                @ toHex buffer))"

section \<open>Transaction bodies\<close>

text \<open>
  Modelled from the spec: the type declarations of \<open>./types\<close> (\<open>TransactionBody\<close>,
  its clauses and its reserved field) are missing; the records follow the data model of
  the specification. A property that \<open>_isValidBody\<close> or the \<open>??\<close> operator compares
  with \<open>undefined\<close> is an \<open>option\<close> (\<open>None\<close> is \<open>undefined\<close>); \<open>dependsOn\<close> may also
  be \<open>null\<close>. Integer-valued JavaScript numbers are \<open>int\<close>, the unsigned feature
  bitfield is \<open>nat\<close>.
\<close>

datatype 'a nullable = Null | Val 'a

datatype str_or_num = Str string | Num int

record Clause =
  clause_to :: "string nullable"
  clause_value :: str_or_num
  clause_data :: string

record Reserved =
  features :: "nat option"
  unused :: "buffer list option"

record TransactionBody =
  chainTag :: "int option"
  blockRef :: "string option"
  expiration :: "int option"
  clauses :: "Clause list option"
  gasPriceCoef :: "int option"
  gas :: "int option"
  dependsOn :: "string nullable option"
  nonce :: "str_or_num option"
  reserved :: "Reserved option"

record Transaction =
  body :: TransactionBody
  signature :: "buffer option"

text \<open>
  The object handed to the RLP profiles by \<open>_encode\<close>: the body's properties, with
  \<open>reserved\<close> overridden by the encoded list and, for the signed profile, the signature.
\<close>

record RLPValidObject =
  obj_body :: TransactionBody
  obj_reserved :: "buffer list"
  obj_signature :: "buffer option"

section \<open>Collaborators imported by transaction.ts\<close>

text \<open>
  \<open>address.isAddress\<close>, \<open>address.fromPublicKey\<close>, \<open>dataUtils.isHexString\<close>,
  \<open>blake2b256\<close>, \<open>secp256k1.recover\<close> and the \<open>encodeObject\<close> of the two RLP profiles
  are imported by \<open>transaction.ts\<close> from other modules. They are parameters of the model:
  every theorem below holds for every choice of them. Recovery and the codecs can
  throw, so they return \<open>error + buffer\<close>.
\<close>

record capabilities =
  isAddress :: "string \<Rightarrow> bool"
  fromPublicKey :: "buffer \<Rightarrow> string"
  isHexString :: "string \<Rightarrow> bool"
  blake2b256 :: "buffer \<Rightarrow> buffer"
  recover :: "buffer \<Rightarrow> buffer \<Rightarrow> error + buffer"
  UNSIGNED_TRANSACTION_RLP :: "RLPValidObject \<Rightarrow> error + buffer"
  SIGNED_TRANSACTION_RLP :: "RLPValidObject \<Rightarrow> error + buffer"

text \<open>
  Modelled from the spec: the constant \<open>BLOCKREF_LENGTH\<close> of \<open>../utils\<close> is missing; the
  specification has blockRef decode to exactly 8 bytes.
\<close>

definition BLOCKREF_LENGTH :: nat where
  "BLOCKREF_LENGTH = 8"

text \<open>
  Modelled from the spec: the constant \<open>SIGNATURE_LENGTH\<close> of \<open>../utils\<close> is missing;
  the specification has one ECDSA signature of 65 bytes, two of them when delegated.
\<close>

definition SIGNATURE_LENGTH :: nat where
  "SIGNATURE_LENGTH = 65"

text \<open>
  Modelled from the spec: \<open>blake2b256 (data, 'hex')\<close> of \<open>../hash\<close> is missing; it is
  the digest rendered as a hex string, and the specification has every hex string
  \<open>0x\<close>-prefixed and lowercase.
\<close>

definition blake2b256_hex :: "capabilities \<Rightarrow> buffer \<Rightarrow> string" where
  "blake2b256_hex c data = ''0x'' @ toHex (blake2b256 c data)"

text \<open>
  Modelled from the spec: \<open>TRANSACTION_FEATURES_KIND\<close> of \<open>../utils\<close> is missing; the
  specification makes \<open>features\<close> a compact numeric blob: the big-endian bytes of the
  number with all leading zero bytes trimmed, so that zero is the empty buffer.
\<close>

fun featuresKind_encode :: "nat \<Rightarrow> buffer" where
  "featuresKind_encode n =
     (if n = 0 then [] else featuresKind_encode (n div 256) @ [of_nat (n mod 256)])"

declare featuresKind_encode.simps [simp del]

section \<open>The Transaction class (transaction.ts)\<close>

text \<open>
  A private method \<open>_name\<close> of the class is the constant \<open>priv_name\<close>.
  \<open>features & 1\<close> works on the 32-bit integer that JavaScript's ToInt32 makes of the
  number, hence the \<open>32 word\<close>.
\<close>

definition priv_isDelegated :: "TransactionBody \<Rightarrow> bool" where
  "priv_isDelegated b =
     (let features = (case reserved b of
                        None \<Rightarrow> 0
                      | Some r \<Rightarrow> (case features r of None \<Rightarrow> 0 | Some f \<Rightarrow> f))
      in ((of_nat features :: 32 word) AND 1) = 1)"

definition priv_isSignatureValid :: "TransactionBody \<Rightarrow> buffer \<Rightarrow> bool" where
  "priv_isSignatureValid b sig =
     (let expectedSigatureLength =
            (if priv_isDelegated b then SIGNATURE_LENGTH * 2 else SIGNATURE_LENGTH)
      in length sig = expectedSigatureLength)"

definition priv_isValidBody :: "capabilities \<Rightarrow> TransactionBody \<Rightarrow> bool" where
  "priv_isValidBody c b =
     ((case chainTag b of None \<Rightarrow> False | Some t \<Rightarrow> t \<ge> 0 \<and> t \<le> 255) \<and>
      (case blockRef b of
         None \<Rightarrow> False
       | Some r \<Rightarrow> isHexString c r \<and> length (Buffer_from_hex (drop 2 r)) = BLOCKREF_LENGTH) \<and>
      expiration b \<noteq> None \<and>
      clauses b \<noteq> None \<and>
      gasPriceCoef b \<noteq> None \<and>
      gas b \<noteq> None \<and>
      dependsOn b \<noteq> None \<and>
      nonce b \<noteq> None)"

text \<open>The constructor: the new instance, or the error it throws.\<close>

definition constructor :: "capabilities \<Rightarrow> TransactionBody \<Rightarrow> buffer option \<Rightarrow> error + Transaction" where
  "constructor c b sig =
     (if priv_isValidBody c b then
        (case sig of
           None \<Rightarrow> Inr \<lparr>body = b, signature = None\<rparr>
         | Some s \<Rightarrow>
             if priv_isSignatureValid b s then Inr \<lparr>body = b, signature = Some s\<rparr>
             else Inl INVALID_SIGNATURE)
      else Inl INVALID_TRANSACTION_BODY)"

definition isDelegated :: "Transaction \<Rightarrow> bool" where
  "isDelegated t = priv_isDelegated (body t)"

definition isSigned :: "Transaction \<Rightarrow> bool" where
  "isSigned t = (signature t \<noteq> None)"

text \<open>
  The trimming loop of \<open>_encodeReservedField\<close>: while the list is non-empty and its last
  entry has length 0, pop it.
\<close>

function trimFeaturesList :: "buffer list \<Rightarrow> buffer list" where
  "trimFeaturesList featuresList =
     (if length featuresList > 0 then
        (if length (featuresList ! (length featuresList - 1)) = 0
         then trimFeaturesList (butlast featuresList)
         else featuresList)
      else featuresList)"
  by pat_completeness auto
termination
  by (relation "measure length") auto

declare trimFeaturesList.simps [simp del]

definition priv_encodeReservedField :: "Transaction \<Rightarrow> buffer list" where
  "priv_encodeReservedField t =
     (let featuresList =
            featuresKind_encode
              (case reserved (body t) of
                 None \<Rightarrow> 0
               | Some r \<Rightarrow> (case features r of None \<Rightarrow> 0 | Some f \<Rightarrow> f))
            # (case reserved (body t) of
                 None \<Rightarrow> []
               | Some r \<Rightarrow> (case unused r of None \<Rightarrow> [] | Some u \<Rightarrow> u))
      in trimFeaturesList featuresList)"

definition priv_lowLevelEncodeTransactionBodyWithRLP ::
  "capabilities \<Rightarrow> Transaction \<Rightarrow> RLPValidObject \<Rightarrow> bool \<Rightarrow> error + buffer" where
  "priv_lowLevelEncodeTransactionBodyWithRLP c t obj is_signed =
     (if is_signed then SIGNED_TRANSACTION_RLP c (obj\<lparr>obj_signature := signature t\<rparr>)
      else UNSIGNED_TRANSACTION_RLP c obj)"

definition priv_encode :: "capabilities \<Rightarrow> Transaction \<Rightarrow> bool \<Rightarrow> error + buffer" where
  "priv_encode c t is_signed =
     priv_lowLevelEncodeTransactionBodyWithRLP c t
       \<lparr>obj_body = body t, obj_reserved = priv_encodeReservedField t, obj_signature = None\<rparr>
       is_signed"

definition encoded :: "capabilities \<Rightarrow> Transaction \<Rightarrow> error + buffer" where
  "encoded c t = priv_encode c t (isSigned t)"

definition getSignatureHash :: "capabilities \<Rightarrow> Transaction \<Rightarrow> string option \<Rightarrow> error + buffer" where
  "getSignatureHash c t delegateFor =
     (if (case delegateFor of None \<Rightarrow> False | Some d \<Rightarrow> \<not> isAddress c d)
      then Inl INVALID_ADDRESS
      else
        (case priv_encode c t False of
           Inl e \<Rightarrow> Inl e
         | Inr enc \<Rightarrow>
             (let transactionHash = blake2b256 c enc in
              case delegateFor of
                Some d \<Rightarrow> Inr (blake2b256 c (transactionHash @ Buffer_from_hex (drop 2 d)))
              | None \<Rightarrow> Inr transactionHash)))"

definition origin :: "capabilities \<Rightarrow> Transaction \<Rightarrow> error + string" where
  "origin c t =
     (case signature t of
        None \<Rightarrow> Inl NOT_SIGNED
      | Some sig \<Rightarrow>
          (let signatureSliced = take 65 sig in
           case getSignatureHash c t None of
             Inl e \<Rightarrow> Inl e
           | Inr h \<Rightarrow>
               (case recover c h signatureSliced of
                  Inl e \<Rightarrow> Inl e
                | Inr originPublicKey \<Rightarrow> Inr (fromPublicKey c originPublicKey))))"

definition delegator :: "capabilities \<Rightarrow> Transaction \<Rightarrow> error + string" where
  "delegator c t =
     (if \<not> isDelegated t then Inl NOT_DELEGATED
      else
        (case signature t of
           None \<Rightarrow> Inl NOT_SIGNED
         | Some sig \<Rightarrow>
             (let signatureSliced = drop 65 (take (length sig) sig) in
              case origin c t of
                Inl e \<Rightarrow> Inl e
              | Inr orig \<Rightarrow>
                  (case getSignatureHash c t (Some orig) of
                     Inl e \<Rightarrow> Inl e
                   | Inr h \<Rightarrow>
                       (case recover c h signatureSliced of
                          Inl e \<Rightarrow> Inl e
                        | Inr delegatorPublicKey \<Rightarrow> Inr (fromPublicKey c delegatorPublicKey))))))"

text \<open>The getter \<open>id\<close> (the name \<open>id\<close> is HOL's identity function).\<close>

definition id_tx :: "capabilities \<Rightarrow> Transaction \<Rightarrow> error + string" where
  "id_tx c t =
     (if \<not> isSigned t then Inl NOT_SIGNED
      else
        (case getSignatureHash c t None of
           Inl e \<Rightarrow> Inl e
         | Inr h \<Rightarrow>
             (case origin c t of
                Inl e \<Rightarrow> Inl e
              | Inr orig \<Rightarrow> Inr (blake2b256_hex c (h @ Buffer_from_hex (drop 2 orig))))))"

section \<open>A concrete set of collaborators for worked instances\<close>

text \<open>
  A deterministic stand-in for the injected capabilities, used only to run the
  definitions on concrete transactions: an address is \<open>0x\<close> and 40 hex digits, a hex
  string is \<open>0x\<close> and hex digits, the digest is the byte count followed by the first four
  bytes, recovery hands back the first 20 signature bytes of a 65-byte signature, and
  the codecs write the chain tag, the flattened reserved list and the signature.
\<close>

definition fake_encode :: "RLPValidObject \<Rightarrow> error + buffer" where
  "fake_encode obj =
     (case chainTag (obj_body obj) of
        None \<Rightarrow> Inl (CapabilityError ''chainTag'')
      | Some n \<Rightarrow> Inr (of_int n # concat (obj_reserved obj)
                       @ (case obj_signature obj of None \<Rightarrow> [] | Some s \<Rightarrow> s)))"

definition fake :: capabilities where
  "fake = \<lparr>
     isAddress = (\<lambda>s. length s = 42 \<and> take 2 s = ''0x'' \<and> list_all (\<lambda>ch. unhex ch \<noteq> None) (drop 2 s)),
     fromPublicKey = (\<lambda>pk. ''0x'' @ toHex pk),
     isHexString = (\<lambda>s. take 2 s = ''0x'' \<and> list_all (\<lambda>ch. unhex ch \<noteq> None) (drop 2 s)),
     blake2b256 = (\<lambda>data. of_nat (length data) # take 4 data),
     recover = (\<lambda>h sig. if length sig = 65 then Inr (take 20 sig)
                         else Inl (CapabilityError ''recover'')),
     UNSIGNED_TRANSACTION_RLP = fake_encode,
     SIGNED_TRANSACTION_RLP = fake_encode
   \<rparr>"

definition sample_body :: TransactionBody where
  "sample_body = \<lparr>
     chainTag = Some 74,
     blockRef = Some ''0x00000058f9f240ae'',
     expiration = Some 32,
     clauses = Some [],
     gasPriceCoef = Some 0,
     gas = Some 21000,
     dependsOn = Some Null,
     nonce = Some (Num 1),
     reserved = None
   \<rparr>"

definition sample_address :: string where
  "sample_address = ''0x7567d83b7b8d80addcb281a71d54fc7b3364ffed''"

definition delegated_body :: TransactionBody where
  "delegated_body = sample_body\<lparr>reserved := Some \<lparr>features = Some 1, unused = None\<rparr>\<rparr>"

definition unsigned_tx :: Transaction where
  "unsigned_tx = \<lparr>body = sample_body, signature = None\<rparr>"

definition signed_tx :: Transaction where
  "signed_tx = \<lparr>body = sample_body, signature = Some (replicate 65 7)\<rparr>"

section \<open>The body checks as the specification words them\<close>

text \<open>
  The construction rule of the specification, written from its words to be compared
  with \<open>priv_isValidBody\<close>: chainTag present and in 0..255; blockRef present, a hex
  string, exactly 8 bytes once decoded; the six other fields present.
\<close>

definition claimed_body_checks :: "capabilities \<Rightarrow> TransactionBody \<Rightarrow> bool" where
  "claimed_body_checks c b =
     ((chainTag b \<noteq> None \<and> 0 \<le> the (chainTag b) \<and> the (chainTag b) \<le> 255) \<and>
      (blockRef b \<noteq> None \<and> isHexString c (the (blockRef b)) \<and>
       length (Buffer_from_hex (drop 2 (the (blockRef b)))) = 8) \<and>
      list_all (\<lambda>present. present)
        [expiration b \<noteq> None, clauses b \<noteq> None, gasPriceCoef b \<noteq> None,
         gas b \<noteq> None, dependsOn b \<noteq> None, nonce b \<noteq> None])"

section \<open>Helper lemmas\<close>

lemma findIndex_takeWhile:
  "findIndex p xs =
     (if \<exists>x\<in>set xs. p x then int (length (takeWhile (\<lambda>x. \<not> p x) xs)) else -1)"
  by (induction xs) (auto simp: Let_def)

lemma encode_dropWhile: "encodeCompactFixedHexBlob b = dropWhile (\<lambda>x. x = 0) b"
proof (cases "\<exists>x\<in>set b. x \<noteq> 0")
  case True
  then show ?thesis
    by (simp add: encodeCompactFixedHexBlob_def findIndex_takeWhile Let_def dropWhile_eq_drop)
next
  case False
  then have d: "dropWhile (\<lambda>x. x = 0) b = []"
    by (simp add: dropWhile_eq_Nil_conv)
  from False have "findIndex (\<lambda>byte. byte \<noteq> 0) b = -1"
    by (simp add: findIndex_takeWhile)
  then show ?thesis unfolding d
    by (simp add: encodeCompactFixedHexBlob_def)
qed

lemma encode_canonical_id:
  "blob = [] \<or> blob ! 0 \<noteq> 0 \<Longrightarrow> encodeCompactFixedHexBlob blob = blob"
  by (cases blob) (simp_all add: encode_dropWhile)

lemma encode_zero_padded:
  "blob = [] \<or> blob ! 0 \<noteq> 0 \<Longrightarrow> encodeCompactFixedHexBlob (replicate k 0 @ blob) = blob"
  by (cases blob) (simp_all add: encode_dropWhile dropWhile_append dropWhile_eq_Nil_conv)

lemma bit0_of_features: "(((of_nat n :: 32 word) AND 1) = 1) = odd n"
proof -
  have "odd (of_nat n :: 32 word) = odd n"
    by simp
  moreover have "((of_nat n :: 32 word) AND 1 = 1) = odd (of_nat n :: 32 word)"
    by (simp only: and_one_eq odd_iff_mod_2_eq_one)
  ultimately show ?thesis
    by simp
qed

lemma unhex_hexDigit: "n < 16 \<Longrightarrow> unhex (hexDigit n) = Some n"
  by (simp add: unhex_def hexDigit_def Let_def)

lemma Buffer_from_hex_toHex: "Buffer_from_hex (toHex bs) = bs"
proof (induction bs)
  case Nil
  then show ?case by simp
next
  case (Cons b bs)
  have "unat b < 256"
    using unsigned_less [of b] by simp
  then have "unat b div 16 < 16"
    by simp
  with Cons show ?case
    by (simp add: unhex_hexDigit)
qed

lemma hexDigit_0: "hexDigit 0 = CHR ''0''"
  by code_simp

lemma toHex_append: "toHex (xs @ ys) = toHex xs @ toHex ys"
  by (induction xs) simp_all

lemma toHex_zeros: "toHex (replicate k 0) = replicate (k * 2) (CHR ''0'')"
  by (induction k) (simp_all add: hexDigit_0)

lemma decode_encode_full_width:
  assumes "length data = N"
  shows "decodeBufferToHexWithLeadingZeros (encodeCompactFixedHexBlob data) N
           = Inr (''0x'' @ toHex data)"
proof -
  let ?z = "\<lambda>byte :: byte. byte = 0"
  let ?k = "length (takeWhile ?z data)"
  have tw: "takeWhile ?z data = replicate ?k 0"
    by (rule replicate_length_same [symmetric]) (auto dest: set_takeWhileD)
  have split: "data = replicate ?k 0 @ dropWhile ?z data"
    using takeWhile_dropWhile_id [of ?z data] tw by simp
  have "length data = ?k + length (dropWhile ?z data)"
    by (metis length_append takeWhile_dropWhile_id)
  then have count: "nat ((int N - int (length (dropWhile ?z data))) * 2) = ?k * 2"
    and nonneg: "\<not> (int N - int (length (dropWhile ?z data))) * 2 < 0"
    using assms by simp_all
  have "toHex data = replicate (?k * 2) (CHR ''0'') @ toHex (dropWhile ?z data)"
    using arg_cong [OF split, of toHex] by (simp only: toHex_append toHex_zeros)
  then show ?thesis
    by (simp only: encode_dropWhile decodeBufferToHexWithLeadingZeros_def count nonneg if_False)
qed

lemma trimFeaturesList_dropWhile:
  "trimFeaturesList fl = rev (dropWhile (\<lambda>b. b = []) (rev fl))"
proof (induction fl rule: rev_induct)
  case Nil
  then show ?case
    by (simp add: trimFeaturesList.simps)
next
  case (snoc x xs)
  then show ?case
    by (subst trimFeaturesList.simps) (simp add: nth_append)
qed

lemma featuresKind_encode_empty: "(featuresKind_encode n = []) = (n = 0)"
  by (subst featuresKind_encode.simps) simp

lemma trailing_empties:
  "\<exists>k. xs = rev (dropWhile (\<lambda>b. b = []) (rev xs)) @ replicate k []"
proof -
  have "rev xs = takeWhile (\<lambda>b. b = []) (rev xs) @ dropWhile (\<lambda>b. b = []) (rev xs)"
    by simp
  moreover have "takeWhile (\<lambda>b. b = []) (rev xs)
      = replicate (length (takeWhile (\<lambda>b. b = []) (rev xs))) []"
    by (rule replicate_length_same [symmetric]) (auto dest: set_takeWhileD)
  ultimately have "rev xs = replicate (length (takeWhile (\<lambda>b. b = []) (rev xs))) []
      @ dropWhile (\<lambda>b. b = []) (rev xs)"
    by simp
  then have "xs = rev (dropWhile (\<lambda>b. b = []) (rev xs))
      @ replicate (length (takeWhile (\<lambda>b. b = []) (rev xs))) []"
    by (metis rev_append rev_replicate rev_rev_ident)
  then show ?thesis ..
qed

lemma trimmed_last: "rev (dropWhile (\<lambda>b. b = []) (rev xs)) = [] \<or>
    last (rev (dropWhile (\<lambda>b. b = []) (rev xs))) \<noteq> []"
proof (cases "dropWhile (\<lambda>b. b = []) (rev xs)")
  case Nil
  then show ?thesis by simp
next
  case (Cons y ys)
  then have "y \<noteq> []"
    using hd_dropWhile [of "\<lambda>b. b = []" "rev xs"] by auto
  with Cons show ?thesis by simp
qed


section \<open>Compact fixed-width blobs\<close>

text \<open>
  C9. The output of \<open>encodeCompactFixedHexBlob\<close> is canonical: it is empty or starts with
  a non-zero byte, it is never longer than the input, and it is the input without its
  leading zero bytes; hence for an input of at most \<open>N\<close> bytes the assertion
  \<open>assertCompactFixedHexBlobBuffer\<close> accepts the encoded output for width \<open>N\<close>.
\<close>

theorem encodeCompactFixedHexBlob_canonical:
  "(encodeCompactFixedHexBlob buffer = [] \<or> encodeCompactFixedHexBlob buffer ! 0 \<noteq> 0) \<and>
   length (encodeCompactFixedHexBlob buffer) \<le> length buffer \<and>
   encodeCompactFixedHexBlob buffer = dropWhile (\<lambda>byte. byte = 0) buffer \<and>
   buffer = takeWhile (\<lambda>byte. byte = 0) buffer @ encodeCompactFixedHexBlob buffer \<and>
   (length buffer \<le> N \<longrightarrow>
      assertCompactFixedHexBlobBuffer (encodeCompactFixedHexBlob buffer) context N = Inr ())"
proof -
  let ?e = "dropWhile (\<lambda>byte. byte = 0) buffer"
  have e: "encodeCompactFixedHexBlob buffer = ?e"
    by (rule encode_dropWhile)
  have hd: "?e = [] \<or> ?e ! 0 \<noteq> 0"
  proof (cases ?e)
    case Nil
    then show ?thesis by simp
  next
    case (Cons y ys)
    then have "y \<noteq> 0"
      using hd_dropWhile [of "\<lambda>byte. byte = 0" buffer] by auto
    with Cons show ?thesis by simp
  qed
  have len: "length ?e \<le> length buffer"
    by (simp add: length_dropWhile_le)
  have ok: "length buffer \<le> N \<Longrightarrow> assertCompactFixedHexBlobBuffer ?e context N = Inr ()"
    using hd len by (auto simp: assertCompactFixedHexBlobBuffer_def)
  show ?thesis
    unfolding e using hd len ok by simp
qed

theorem encodeCompactFixedHexBlob_canonical_witness:
  "length [0, 0, 5, 0, 9 :: byte] \<le> 8 \<and>
   encodeCompactFixedHexBlob [0, 0, 5, 0, 9] = [5, 0, 9] \<and>
   assertCompactFixedHexBlobBuffer (encodeCompactFixedHexBlob [0, 0, 5, 0, 9]) ''blockRef'' 8 = Inr ()"
proof -
  have h: "length [0, 0, 5, 0, 9 :: byte] \<le> 8"
    by simp
  have v: "encodeCompactFixedHexBlob [0, 0, 5, 0, 9] = [5, 0, 9]"
    by code_simp
  from encodeCompactFixedHexBlob_canonical [of "[0, 0, 5, 0, 9]" 8 "''blockRef''"] h
  have "assertCompactFixedHexBlobBuffer (encodeCompactFixedHexBlob [0, 0, 5, 0, 9]) ''blockRef'' 8 = Inr ()"
    by blast
  with h v show ?thesis
    by blast
qed

text \<open>
  C4, as stated, fails: a canonical blob shorter than the declared width does not come
  back from decoding. For width 8 the one-byte blob \<open>01\<close> encodes to itself, passes the
  decode-time assertion, and decodes to the 8-byte hex string \<open>0x0000000000000001\<close>,
  which is neither the rendering of the blob nor, read back as bytes, the blob.
\<close>

theorem compact_blob_roundtrip_counterexample:
  "length [1 :: byte] \<le> 8 \<and> [1 :: byte] ! 0 \<noteq> 0 \<and>
   assertCompactFixedHexBlobBuffer (encodeCompactFixedHexBlob [1]) ''blockRef'' 8 = Inr () \<and>
   decodeBufferToHexWithLeadingZeros (encodeCompactFixedHexBlob [1]) 8
     = Inr ''0x0000000000000001'' \<and>
   ''0x0000000000000001'' \<noteq> ''0x'' @ toHex [1] \<and>
   Buffer_from_hex (drop 2 ''0x0000000000000001'') \<noteq> [1]"
  by code_simp

text \<open>
  C4, amended. For a blob of at most \<open>N\<close> bytes with no leading zero byte, the encoding
  is the blob itself and passes the decode-time assertion for width \<open>N\<close>; decoding it
  yields the \<open>0x\<close> hex rendering of the blob left-padded with zero bytes to \<open>N\<close> bytes
  (the blob's own rendering exactly when its length is \<open>N\<close>), and encoding the decoded
  bytes gives the blob back. Decoding the encoding is the identity on buffers of exactly
  \<open>N\<close> bytes, leading zero bytes or not. The decode-time assertion rejects, with the RLP error of
  the field's context, every buffer longer than \<open>N\<close> and every buffer whose first byte
  is zero.
\<close>

theorem compact_blob_decode_pads:
  "(length blob \<le> N \<and> (blob = [] \<or> blob ! 0 \<noteq> 0) \<longrightarrow>
      encodeCompactFixedHexBlob blob = blob \<and>
      assertCompactFixedHexBlobBuffer (encodeCompactFixedHexBlob blob) context N = Inr () \<and>
      decodeBufferToHexWithLeadingZeros (encodeCompactFixedHexBlob blob) N
        = Inr (''0x'' @ toHex (replicate (N - length blob) 0 @ blob)) \<and>
      (length blob = N \<longrightarrow>
         decodeBufferToHexWithLeadingZeros (encodeCompactFixedHexBlob blob) N
           = Inr (''0x'' @ toHex blob)) \<and>
      encodeCompactFixedHexBlob
        (Buffer_from_hex (drop 2 (''0x'' @ toHex (replicate (N - length blob) 0 @ blob))))
        = blob) \<and>
   (length data = N \<longrightarrow>
      decodeBufferToHexWithLeadingZeros (encodeCompactFixedHexBlob data) N
        = Inr (''0x'' @ toHex data)) \<and>
   (length buffer > N \<longrightarrow>
      assertCompactFixedHexBlobBuffer buffer context N
        = Inl (RlpError context (ExpectedAtMostBytes N))) \<and>
   (length buffer \<le> N \<and> buffer \<noteq> [] \<and> buffer ! 0 = 0 \<longrightarrow>
      assertCompactFixedHexBlobBuffer buffer context N
        = Inl (RlpError context ExpectedNoLeadingZeroBytes))"
proof -
  have accept: "encodeCompactFixedHexBlob blob = blob \<and>
      assertCompactFixedHexBlobBuffer (encodeCompactFixedHexBlob blob) context N = Inr () \<and>
      decodeBufferToHexWithLeadingZeros (encodeCompactFixedHexBlob blob) N
        = Inr (''0x'' @ toHex (replicate (N - length blob) 0 @ blob)) \<and>
      (length blob = N \<longrightarrow>
         decodeBufferToHexWithLeadingZeros (encodeCompactFixedHexBlob blob) N
           = Inr (''0x'' @ toHex blob)) \<and>
      encodeCompactFixedHexBlob
        (Buffer_from_hex (drop 2 (''0x'' @ toHex (replicate (N - length blob) 0 @ blob))))
        = blob"
    if len: "length blob \<le> N" and canon: "blob = [] \<or> blob ! 0 \<noteq> 0"
  proof -
    have e: "encodeCompactFixedHexBlob blob = blob"
      using canon by (rule encode_canonical_id)
    have a: "assertCompactFixedHexBlobBuffer blob context N = Inr ()"
      using len canon by (auto simp: assertCompactFixedHexBlobBuffer_def)
    have count: "nat ((int N - int (length blob)) * 2) = (N - length blob) * 2"
      using len by (simp add: nat_mult_distrib of_nat_diff)
    have d: "decodeBufferToHexWithLeadingZeros blob N
        = Inr (''0x'' @ toHex (replicate (N - length blob) 0 @ blob))"
      using len
      by (simp add: decodeBufferToHexWithLeadingZeros_def count toHex_append toHex_zeros)
    have r: "encodeCompactFixedHexBlob
        (Buffer_from_hex (drop 2 (''0x'' @ toHex (replicate (N - length blob) 0 @ blob)))) = blob"
      using canon by (simp add: Buffer_from_hex_toHex encode_zero_padded)
    show ?thesis
      unfolding e using e a d r by simp
  qed
  have long: "assertCompactFixedHexBlobBuffer buffer context N
      = Inl (RlpError context (ExpectedAtMostBytes N))" if "length buffer > N"
    using that by (simp add: assertCompactFixedHexBlobBuffer_def)
  have zero: "assertCompactFixedHexBlobBuffer buffer context N
      = Inl (RlpError context ExpectedNoLeadingZeroBytes)"
    if "length buffer \<le> N" "buffer \<noteq> []" "buffer ! 0 = 0"
    using that by (simp add: assertCompactFixedHexBlobBuffer_def)
  have full: "decodeBufferToHexWithLeadingZeros (encodeCompactFixedHexBlob data) N
      = Inr (''0x'' @ toHex data)" if "length data = N"
    using that by (rule decode_encode_full_width)
  show ?thesis
    using accept full long zero by blast
qed

theorem compact_blob_decode_pads_witness:
  "decodeBufferToHexWithLeadingZeros (encodeCompactFixedHexBlob [1]) 8
     = Inr (''0x'' @ toHex (replicate (8 - length [1 :: byte]) 0 @ [1])) \<and>
   decodeBufferToHexWithLeadingZeros (encodeCompactFixedHexBlob [1, 2]) 2
     = Inr (''0x'' @ toHex [1, 2]) \<and>
   decodeBufferToHexWithLeadingZeros (encodeCompactFixedHexBlob [0, 0, 7]) 3
     = Inr (''0x'' @ toHex [0, 0, 7]) \<and>
   assertCompactFixedHexBlobBuffer [1, 2, 3] ''blockRef'' 2
     = Inl (RlpError ''blockRef'' (ExpectedAtMostBytes 2)) \<and>
   assertCompactFixedHexBlobBuffer [0, 2] ''blockRef'' 2
     = Inl (RlpError ''blockRef'' ExpectedNoLeadingZeroBytes)"
proof -
  have h1: "length [1 :: byte] \<le> 8 \<and> ([1 :: byte] = [] \<or> [1 :: byte] ! 0 \<noteq> 0)"
    by simp
  have h2: "length [1, 2 :: byte] \<le> 2 \<and> ([1, 2 :: byte] = [] \<or> [1, 2 :: byte] ! 0 \<noteq> 0)"
    by simp
  have h2': "length [1, 2 :: byte] = 2"
    by simp
  have h3: "length [1, 2, 3 :: byte] > 2"
    by simp
  have h4: "length [0, 2 :: byte] \<le> 2 \<and> [0, 2 :: byte] \<noteq> [] \<and> [0, 2 :: byte] ! 0 = 0"
    by simp
  have h5: "length [0, 0, 7 :: byte] = 3"
    by simp
  from compact_blob_decode_pads [of "[1]" 8 "''blockRef''" _ "[1, 2, 3]"] h1
  have 1: "decodeBufferToHexWithLeadingZeros (encodeCompactFixedHexBlob [1]) 8
     = Inr (''0x'' @ toHex (replicate (8 - length [1 :: byte]) 0 @ [1]))"
    by blast
  note T2 = compact_blob_decode_pads [of "[1, 2]" 2 "''blockRef''" _ "[1, 2, 3]"]
  have 2: "decodeBufferToHexWithLeadingZeros (encodeCompactFixedHexBlob [1, 2]) 2
     = Inr (''0x'' @ toHex [1, 2])"
    using T2 h2 h2' by blast
  have 3: "assertCompactFixedHexBlobBuffer [1, 2, 3] ''blockRef'' 2
     = Inl (RlpError ''blockRef'' (ExpectedAtMostBytes 2))"
    using T2 h3 by blast
  from compact_blob_decode_pads [of "[1, 2]" 2 "''blockRef''" _ "[0, 2]"] h4
  have 4: "assertCompactFixedHexBlobBuffer [0, 2] ''blockRef'' 2
     = Inl (RlpError ''blockRef'' ExpectedNoLeadingZeroBytes)"
    by blast
  from compact_blob_decode_pads [of _ 3 _ "[0, 0, 7]"] h5
  have 5: "decodeBufferToHexWithLeadingZeros (encodeCompactFixedHexBlob [0, 0, 7]) 3
     = Inr (''0x'' @ toHex [0, 0, 7])"
    by blast
  show ?thesis
    by (intro conjI) (rule 1, rule 2, rule 5, rule 3, rule 4)
qed

section \<open>Delegation bit and reserved field\<close>

text \<open>
  C3. \<open>isDelegated\<close> is true exactly when bit 0 of \<open>reserved.features\<close> is set, with
  features taken as 0 when \<open>reserved\<close> or \<open>reserved.features\<close> is absent: false for
  0, 2, 4, ..., true for 1, 3, 5, ...
\<close>

theorem isDelegated_tests_bit_0:
  "priv_isDelegated b =
     bit (case reserved b of
            None \<Rightarrow> 0
          | Some r \<Rightarrow> (case features r of None \<Rightarrow> (0 :: nat) | Some f \<Rightarrow> f)) 0 \<and>
   isDelegated \<lparr>body = b, signature = s\<rparr> = priv_isDelegated b \<and>
   priv_isDelegated (b\<lparr>reserved := None\<rparr>) = False \<and>
   priv_isDelegated (b\<lparr>reserved := Some \<lparr>features = None, unused = u\<rparr>\<rparr>) = False \<and>
   priv_isDelegated (b\<lparr>reserved := Some \<lparr>features = Some (2 * k), unused = u\<rparr>\<rparr>) = False \<and>
   priv_isDelegated (b\<lparr>reserved := Some \<lparr>features = Some (2 * k + 1), unused = u\<rparr>\<rparr>) = True"
  by (simp add: priv_isDelegated_def isDelegated_def bit0_of_features bit_0
      split: option.split)

theorem isDelegated_tests_bit_0_witness:
  "priv_isDelegated (sample_body\<lparr>reserved := Some \<lparr>features = Some (2 * 3), unused = None\<rparr>\<rparr>) = False \<and>
   priv_isDelegated (sample_body\<lparr>reserved := Some \<lparr>features = Some (2 * 3 + 1), unused = None\<rparr>\<rparr>) = True"
  using isDelegated_tests_bit_0 [of sample_body None None 3] by blast

text \<open>
  C5. The encoded reserved field is the list \<open>[encode (features), ...unused]\<close> with the
  empty byte blobs at its end removed, and only those: the list is the result followed
  by empty blobs only, and the result is empty or ends in a non-empty blob. With
  features 0 and no unused entries, or with \<open>reserved\<close> absent, the result is the empty
  list; a non-empty last entry keeps the whole list, empty entries before it included.
\<close>

theorem encodeReservedField_trims_trailing_empties:
  "(let f = (case reserved (body t) of
               None \<Rightarrow> 0
             | Some r \<Rightarrow> (case features r of None \<Rightarrow> 0 | Some f \<Rightarrow> f));
        u = (case reserved (body t) of
               None \<Rightarrow> []
             | Some r \<Rightarrow> (case unused r of None \<Rightarrow> [] | Some u \<Rightarrow> u));
        featuresList = featuresKind_encode f # u;
        result = priv_encodeReservedField t
    in result = rev (dropWhile (\<lambda>blob. blob = []) (rev featuresList)) \<and>
       (\<exists>k. featuresList = result @ replicate k []) \<and>
       (result = [] \<or> last result \<noteq> []) \<and>
       (f = 0 \<and> u = [] \<longrightarrow> result = []) \<and>
       (reserved (body t) = None \<longrightarrow> result = []) \<and>
       (last featuresList \<noteq> [] \<longrightarrow> result = featuresList))"
proof -
  let ?f = "case reserved (body t) of
               None \<Rightarrow> 0
             | Some r \<Rightarrow> (case features r of None \<Rightarrow> 0 | Some f \<Rightarrow> f)"
  let ?u = "case reserved (body t) of
               None \<Rightarrow> []
             | Some r \<Rightarrow> (case unused r of None \<Rightarrow> [] | Some u \<Rightarrow> u)"
  let ?fl = "featuresKind_encode ?f # ?u"
  let ?r = "rev (dropWhile (\<lambda>blob. blob = []) (rev ?fl))"
  have r: "priv_encodeReservedField t = ?r"
    by (simp add: priv_encodeReservedField_def trimFeaturesList_dropWhile)
  have pre: "\<exists>k. ?fl = ?r @ replicate k []"
    by (rule trailing_empties)
  have lst: "?r = [] \<or> last ?r \<noteq> []"
    by (rule trimmed_last)
  have zero: "?r = []" if "?f = 0" "?u = []"
    using that by (simp add: featuresKind_encode_empty)
  have absent: "?r = []" if "reserved (body t) = None"
    using that by (simp add: featuresKind_encode_empty)
  have shield: "?r = ?fl" if "last ?fl \<noteq> []"
  proof -
    have "?fl = butlast ?fl @ [last ?fl]"
      by simp
    then have "rev ?fl = last ?fl # rev (butlast ?fl)"
      by (metis rev.simps(2) rev_rev_ident rev_swap)
    then have "dropWhile (\<lambda>blob. blob = []) (rev ?fl) = rev ?fl"
      using that by simp
    then show ?thesis
      by simp
  qed
  have "?r = rev (dropWhile (\<lambda>blob. blob = []) (rev ?fl)) \<and>
       (\<exists>k. ?fl = ?r @ replicate k []) \<and>
       (?r = [] \<or> last ?r \<noteq> []) \<and>
       (?f = 0 \<and> ?u = [] \<longrightarrow> ?r = []) \<and>
       (reserved (body t) = None \<longrightarrow> ?r = []) \<and>
       (last ?fl \<noteq> [] \<longrightarrow> ?r = ?fl)"
    apply (intro conjI impI)
         apply (rule refl)
        apply (rule pre)
       apply (rule lst)
      apply (erule conjE, erule (1) zero)
     apply (erule absent)
    apply (erule shield)
    done
  then show ?thesis
    unfolding Let_def r .
qed

theorem encodeReservedField_trims_trailing_empties_witness:
  "priv_encodeReservedField
     \<lparr>body = sample_body\<lparr>reserved := Some \<lparr>features = Some 0, unused = Some []\<rparr>\<rparr>,
      signature = None\<rparr> = [] \<and>
   priv_encodeReservedField \<lparr>body = sample_body, signature = None\<rparr> = [] \<and>
   priv_encodeReservedField
     \<lparr>body = sample_body\<lparr>reserved := Some \<lparr>features = Some 0, unused = Some [[], [7]]\<rparr>\<rparr>,
      signature = None\<rparr> = [[], [], [7]]"
proof -
  let ?t1 = "\<lparr>body = sample_body\<lparr>reserved := Some \<lparr>features = Some 0, unused = Some []\<rparr>\<rparr>,
      signature = None\<rparr>"
  let ?t2 = "\<lparr>body = sample_body, signature = None\<rparr>"
  let ?t3 = "\<lparr>body = sample_body\<lparr>reserved := Some \<lparr>features = Some 0, unused = Some [[], [7]]\<rparr>\<rparr>,
      signature = None\<rparr>"
  have e0: "featuresKind_encode 0 = []"
    by (simp add: featuresKind_encode_empty)
  have 1: "priv_encodeReservedField ?t1 = []"
    using encodeReservedField_trims_trailing_empties [of ?t1] by (simp add: Let_def e0)
  have 2: "priv_encodeReservedField ?t2 = []"
    using encodeReservedField_trims_trailing_empties [of ?t2]
    by (simp add: Let_def sample_body_def e0)
  have 3: "priv_encodeReservedField ?t3 = [[], [], [7]]"
    using encodeReservedField_trims_trailing_empties [of ?t3] by (simp add: Let_def e0)
  show ?thesis
    by (intro conjI) (rule 1, rule 2, rule 3)
qed

section \<open>Construction\<close>

lemma isValidBody_claimed: "priv_isValidBody c b = claimed_body_checks c b"
  by (cases "chainTag b"; cases "blockRef b")
    (simp_all add: priv_isValidBody_def claimed_body_checks_def BLOCKREF_LENGTH_def)

text \<open>
  C6. The constructor succeeds exactly when chainTag is present and in 0..255, blockRef
  is present, is a hex string and decodes to exactly 8 bytes, and expiration, clauses,
  gasPriceCoef, gas, dependsOn and nonce are all present; otherwise it fails with
  InvalidTransactionBody, whatever the signature argument. When the checks pass, the
  constructor without a signature returns the transaction, and with a signature it
  never fails with InvalidTransactionBody: no other body check is made.
\<close>

theorem constructor_body_checks:
  "((\<exists>t. constructor c b None = Inr t) = claimed_body_checks c b) \<and>
   (claimed_body_checks c b \<longrightarrow>
      constructor c b None = Inr \<lparr>body = b, signature = None\<rparr> \<and>
      constructor c b sig \<noteq> Inl INVALID_TRANSACTION_BODY) \<and>
   (\<not> claimed_body_checks c b \<longrightarrow> constructor c b sig = Inl INVALID_TRANSACTION_BODY)"
  by (cases sig) (simp_all add: constructor_def isValidBody_claimed)

theorem constructor_body_checks_witness:
  "claimed_body_checks fake sample_body \<and>
   constructor fake sample_body None = Inr \<lparr>body = sample_body, signature = None\<rparr> \<and>
   \<not> claimed_body_checks fake (sample_body\<lparr>chainTag := Some 256\<rparr>) \<and>
   constructor fake (sample_body\<lparr>chainTag := Some 256\<rparr>) None = Inl INVALID_TRANSACTION_BODY \<and>
   \<not> claimed_body_checks fake (sample_body\<lparr>blockRef := Some ''0x00000058f9f240''\<rparr>) \<and>
   constructor fake (sample_body\<lparr>blockRef := Some ''0x00000058f9f240''\<rparr>) (Some [])
     = Inl INVALID_TRANSACTION_BODY"
proof -
  have h1: "claimed_body_checks fake sample_body"
    by code_simp
  have h2: "\<not> claimed_body_checks fake (sample_body\<lparr>chainTag := Some 256\<rparr>)"
    by code_simp
  have h3: "\<not> claimed_body_checks fake (sample_body\<lparr>blockRef := Some ''0x00000058f9f240''\<rparr>)"
    by code_simp
  have 1: "constructor fake sample_body None = Inr \<lparr>body = sample_body, signature = None\<rparr>"
    using constructor_body_checks [of fake sample_body None] h1 by blast
  have 2: "constructor fake (sample_body\<lparr>chainTag := Some 256\<rparr>) None = Inl INVALID_TRANSACTION_BODY"
    using constructor_body_checks [of fake "sample_body\<lparr>chainTag := Some 256\<rparr>" None] h2 by blast
  have 3: "constructor fake (sample_body\<lparr>blockRef := Some ''0x00000058f9f240''\<rparr>) (Some [])
     = Inl INVALID_TRANSACTION_BODY"
    using constructor_body_checks
      [of fake "sample_body\<lparr>blockRef := Some ''0x00000058f9f240''\<rparr>" "Some []"] h3
    by blast
  show ?thesis
    by (intro conjI) (rule h1, rule 1, rule h2, rule 2, rule h3, rule 3)
qed

text \<open>
  C10. Presence is tested as "not undefined": a body that passes the other checks is
  accepted with \<open>dependsOn\<close> set to \<open>null\<close> and with \<open>dependsOn\<close> set to any string
  whatsoever (no format validation), and is rejected with InvalidTransactionBody when
  \<open>dependsOn\<close> is undefined.
\<close>

theorem constructor_dependsOn_presence:
  "(priv_isValidBody c (b\<lparr>dependsOn := Some d\<rparr>) \<longrightarrow>
      constructor c (b\<lparr>dependsOn := Some Null\<rparr>) None
        = Inr \<lparr>body = b\<lparr>dependsOn := Some Null\<rparr>, signature = None\<rparr> \<and>
      constructor c (b\<lparr>dependsOn := Some (Val s)\<rparr>) None
        = Inr \<lparr>body = b\<lparr>dependsOn := Some (Val s)\<rparr>, signature = None\<rparr>) \<and>
   constructor c (b\<lparr>dependsOn := None\<rparr>) sig = Inl INVALID_TRANSACTION_BODY"
  by (simp add: constructor_def priv_isValidBody_def)

theorem constructor_dependsOn_presence_witness:
  "priv_isValidBody fake (sample_body\<lparr>dependsOn := Some Null\<rparr>) \<and>
   constructor fake (sample_body\<lparr>dependsOn := Some Null\<rparr>) None
     = Inr \<lparr>body = sample_body\<lparr>dependsOn := Some Null\<rparr>, signature = None\<rparr> \<and>
   constructor fake (sample_body\<lparr>dependsOn := Some (Val ''not a transaction id'')\<rparr>) None
     = Inr \<lparr>body = sample_body\<lparr>dependsOn := Some (Val ''not a transaction id'')\<rparr>,
            signature = None\<rparr> \<and>
   constructor fake (sample_body\<lparr>dependsOn := None\<rparr>) None = Inl INVALID_TRANSACTION_BODY"
proof -
  have h: "priv_isValidBody fake (sample_body\<lparr>dependsOn := Some Null\<rparr>)"
    by code_simp
  note T = constructor_dependsOn_presence
    [where c = fake and b = sample_body and d = Null and s = "''not a transaction id''"
       and sig = None]
  have 1: "constructor fake (sample_body\<lparr>dependsOn := Some Null\<rparr>) None
     = Inr \<lparr>body = sample_body\<lparr>dependsOn := Some Null\<rparr>, signature = None\<rparr>"
    using T h by blast
  have 2: "constructor fake (sample_body\<lparr>dependsOn := Some (Val ''not a transaction id'')\<rparr>) None
     = Inr \<lparr>body = sample_body\<lparr>dependsOn := Some (Val ''not a transaction id'')\<rparr>,
            signature = None\<rparr>"
    using T h by blast
  have 3: "constructor fake (sample_body\<lparr>dependsOn := None\<rparr>) None = Inl INVALID_TRANSACTION_BODY"
    using T by blast
  show ?thesis
    by (intro conjI) (rule h, rule 1, rule 2, rule 3)
qed

text \<open>
  C2. For a valid body and a supplied signature, construction succeeds exactly when the
  signature has 65 bytes for an undelegated body and 130 bytes for a delegated one; with
  any other length it fails with InvalidSignature.
\<close>

theorem constructor_signature_length:
  "priv_isValidBody c b \<longrightarrow>
     ((\<exists>t. constructor c b (Some sig) = Inr t)
        = (length sig = (if priv_isDelegated b then 130 else 65))) \<and>
     (length sig = (if priv_isDelegated b then 130 else 65) \<longrightarrow>
        constructor c b (Some sig) = Inr \<lparr>body = b, signature = Some sig\<rparr>) \<and>
     (length sig \<noteq> (if priv_isDelegated b then 130 else 65) \<longrightarrow>
        constructor c b (Some sig) = Inl INVALID_SIGNATURE)"
  by (simp add: constructor_def priv_isSignatureValid_def SIGNATURE_LENGTH_def)

theorem constructor_signature_length_witness:
  "priv_isValidBody fake sample_body \<and> \<not> priv_isDelegated sample_body \<and>
   constructor fake sample_body (Some (replicate 65 7))
     = Inr \<lparr>body = sample_body, signature = Some (replicate 65 7)\<rparr> \<and>
   constructor fake sample_body (Some (replicate 130 7)) = Inl INVALID_SIGNATURE \<and>
   priv_isValidBody fake delegated_body \<and> priv_isDelegated delegated_body \<and>
   constructor fake delegated_body (Some (replicate 130 7))
     = Inr \<lparr>body = delegated_body, signature = Some (replicate 130 7)\<rparr> \<and>
   constructor fake delegated_body (Some (replicate 65 7)) = Inl INVALID_SIGNATURE"
proof -
  have v1: "priv_isValidBody fake sample_body"
    by code_simp
  have d1: "\<not> priv_isDelegated sample_body"
    by code_simp
  have v2: "priv_isValidBody fake delegated_body"
    by code_simp
  have d2: "priv_isDelegated delegated_body"
    by code_simp
  have l65: "length (replicate 65 (7 :: byte)) = 65"
    by simp
  have l130: "length (replicate 130 (7 :: byte)) = 130"
    by simp
  have 1: "constructor fake sample_body (Some (replicate 65 7))
     = Inr \<lparr>body = sample_body, signature = Some (replicate 65 7)\<rparr>"
    using constructor_signature_length [of fake sample_body "replicate 65 7"] v1 d1 l65
    by simp
  have 2: "constructor fake sample_body (Some (replicate 130 7)) = Inl INVALID_SIGNATURE"
    using constructor_signature_length [of fake sample_body "replicate 130 7"] v1 d1 l130
    by simp
  have 3: "constructor fake delegated_body (Some (replicate 130 7))
     = Inr \<lparr>body = delegated_body, signature = Some (replicate 130 7)\<rparr>"
    using constructor_signature_length [of fake delegated_body "replicate 130 7"] v2 d2 l130
    by simp
  have 4: "constructor fake delegated_body (Some (replicate 65 7)) = Inl INVALID_SIGNATURE"
    using constructor_signature_length [of fake delegated_body "replicate 65 7"] v2 d2 l65
    by simp
  show ?thesis
    by (intro conjI) (rule v1, rule d1, rule 1, rule 2, rule v2, rule d2, rule 3, rule 4)
qed

section \<open>Signing hash, origin, delegator and id\<close>

lemma getSignatureHash_None:
  "getSignatureHash c t None =
     (case priv_encode c t False of Inl e \<Rightarrow> Inl e | Inr enc \<Rightarrow> Inr (blake2b256 c enc))"
  by (simp add: getSignatureHash_def split: sum.split)

lemma getSignatureHash_Some:
  "getSignatureHash c t (Some a) =
     (if isAddress c a then
        (case getSignatureHash c t None of
           Inl e \<Rightarrow> Inl e
         | Inr h \<Rightarrow> Inr (blake2b256 c (h @ Buffer_from_hex (drop 2 a))))
      else Inl INVALID_ADDRESS)"
  by (simp add: getSignatureHash_def split: sum.split)

text \<open>
  C1. For a transaction built from a valid body: when \<open>delegateFor\<close> is supplied and is
  not a well-formed address, \<open>getSignatureHash\<close> fails with InvalidAddress; when it is a
  well-formed address, \<open>getSignatureHash (delegateFor)\<close> is the hash of
  \<open>getSignatureHash ()\<close> followed by the raw bytes of the address; and
  \<open>getSignatureHash ()\<close> is the hash of the unsigned encoding of the body. A failure of
  the codec is passed on unchanged by all three.
\<close>

theorem getSignatureHash_delegateFor:
  "constructor c b sig = Inr t \<longrightarrow>
     (\<not> isAddress c a \<longrightarrow> getSignatureHash c t (Some a) = Inl INVALID_ADDRESS) \<and>
     (isAddress c a \<longrightarrow>
        getSignatureHash c t (Some a) =
          (case getSignatureHash c t None of
             Inl e \<Rightarrow> Inl e
           | Inr h \<Rightarrow> Inr (blake2b256 c (h @ Buffer_from_hex (drop 2 a))))) \<and>
     getSignatureHash c t None =
       (case priv_encode c t False of Inl e \<Rightarrow> Inl e | Inr enc \<Rightarrow> Inr (blake2b256 c enc)) \<and>
     priv_encode c t False =
       UNSIGNED_TRANSACTION_RLP c
         \<lparr>obj_body = b, obj_reserved = priv_encodeReservedField t, obj_signature = None\<rparr>"
proof
  assume built: "constructor c b sig = Inr t"
  then have "body t = b"
    by (auto simp: constructor_def split: if_splits option.splits)
  then have enc: "priv_encode c t False =
       UNSIGNED_TRANSACTION_RLP c
         \<lparr>obj_body = b, obj_reserved = priv_encodeReservedField t, obj_signature = None\<rparr>"
    by (simp add: priv_encode_def priv_lowLevelEncodeTransactionBodyWithRLP_def)
  show "(\<not> isAddress c a \<longrightarrow> getSignatureHash c t (Some a) = Inl INVALID_ADDRESS) \<and>
     (isAddress c a \<longrightarrow>
        getSignatureHash c t (Some a) =
          (case getSignatureHash c t None of
             Inl e \<Rightarrow> Inl e
           | Inr h \<Rightarrow> Inr (blake2b256 c (h @ Buffer_from_hex (drop 2 a))))) \<and>
     getSignatureHash c t None =
       (case priv_encode c t False of Inl e \<Rightarrow> Inl e | Inr enc \<Rightarrow> Inr (blake2b256 c enc)) \<and>
     priv_encode c t False =
       UNSIGNED_TRANSACTION_RLP c
         \<lparr>obj_body = b, obj_reserved = priv_encodeReservedField t, obj_signature = None\<rparr>"
    apply (intro conjI impI)
       apply (simp add: getSignatureHash_Some)
      apply (simp add: getSignatureHash_Some)
     apply (rule getSignatureHash_None)
    apply (rule enc)
    done
qed

theorem getSignatureHash_delegateFor_witness:
  "constructor fake sample_body None = Inr unsigned_tx \<and>
   \<not> isAddress fake ''0x7567d83b'' \<and>
   getSignatureHash fake unsigned_tx (Some ''0x7567d83b'') = Inl INVALID_ADDRESS \<and>
   isAddress fake sample_address \<and>
   getSignatureHash fake unsigned_tx None = Inr [1, 74] \<and>
   getSignatureHash fake unsigned_tx (Some sample_address) = Inr [22, 1, 74, 117, 103]"
proof -
  have built: "constructor fake sample_body None = Inr unsigned_tx"
    by code_simp
  have bad: "\<not> isAddress fake ''0x7567d83b''"
    by code_simp
  have good: "isAddress fake sample_address"
    by code_simp
  have enc: "(case priv_encode fake unsigned_tx False of
                Inl e \<Rightarrow> Inl e
              | Inr enc \<Rightarrow> Inr (blake2b256 fake enc)) = Inr [1, 74]"
    by code_simp
  have raw: "blake2b256 fake ([1, 74] @ Buffer_from_hex (drop 2 sample_address))
      = [22, 1, 74, 117, 103]"
    by code_simp
  note T1 = getSignatureHash_delegateFor
    [where c = fake and b = sample_body and sig = None and t = unsigned_tx
       and a = "''0x7567d83b''"]
  note T2 = getSignatureHash_delegateFor
    [where c = fake and b = sample_body and sig = None and t = unsigned_tx
       and a = sample_address]
  have 1: "getSignatureHash fake unsigned_tx (Some ''0x7567d83b'') = Inl INVALID_ADDRESS"
    using T1 built bad by blast
  have 2: "getSignatureHash fake unsigned_tx None = Inr [1, 74]"
    using T2 built enc by simp
  have "getSignatureHash fake unsigned_tx (Some sample_address) =
          (case getSignatureHash fake unsigned_tx None of
             Inl e \<Rightarrow> Inl e
           | Inr h \<Rightarrow> Inr (blake2b256 fake (h @ Buffer_from_hex (drop 2 sample_address))))"
    using T2 built good by blast
  then have 3: "getSignatureHash fake unsigned_tx (Some sample_address)
      = Inr [22, 1, 74, 117, 103]"
    by (simp only: 2 sum.case raw)
  show ?thesis
    by (intro conjI) (rule built, rule bad, rule 1, rule good, rule 2, rule 3)
qed

text \<open>
  C7, as stated, fails for \<open>delegator\<close>: the getter tests the delegation bit before the
  signature, so on an unsigned transaction whose body is not delegated it fails with
  NotDelegated, not with NotSigned.
\<close>

theorem unsigned_delegator_counterexample:
  "signature unsigned_tx = None \<and>
   delegator fake unsigned_tx = Inl NOT_DELEGATED \<and>
   delegator fake unsigned_tx \<noteq> Inl NOT_SIGNED"
  by code_simp

text \<open>
  C7, amended. On an unsigned transaction, \<open>origin\<close> and \<open>id\<close> fail with NotSigned
  whatever the delegation bit; \<open>delegator\<close> fails with NotSigned when the body is
  delegated and with NotDelegated when it is not.
\<close>

theorem unsigned_access_fails:
  "signature t = None \<longrightarrow>
     origin c t = Inl NOT_SIGNED \<and>
     id_tx c t = Inl NOT_SIGNED \<and>
     delegator c t = Inl (if isDelegated t then NOT_SIGNED else NOT_DELEGATED)"
  by (simp add: origin_def id_tx_def delegator_def isSigned_def)

theorem unsigned_access_fails_witness:
  "signature unsigned_tx = None \<and>
   origin fake unsigned_tx = Inl NOT_SIGNED \<and>
   id_tx fake unsigned_tx = Inl NOT_SIGNED \<and>
   delegator fake unsigned_tx = Inl NOT_DELEGATED \<and>
   signature \<lparr>body = delegated_body, signature = None\<rparr> = None \<and>
   delegator fake \<lparr>body = delegated_body, signature = None\<rparr> = Inl NOT_SIGNED"
proof -
  have u1: "signature unsigned_tx = None"
    by (simp add: unsigned_tx_def)
  have d1: "\<not> isDelegated unsigned_tx"
    by code_simp
  have u2: "signature \<lparr>body = delegated_body, signature = None\<rparr> = None"
    by simp
  have d2: "isDelegated \<lparr>body = delegated_body, signature = None\<rparr>"
    by code_simp
  note T1 = unsigned_access_fails [where t = unsigned_tx and c = fake]
  note T2 = unsigned_access_fails
    [where t = "\<lparr>body = delegated_body, signature = None\<rparr>" and c = fake]
  have 1: "origin fake unsigned_tx = Inl NOT_SIGNED"
    using T1 u1 by blast
  have 2: "id_tx fake unsigned_tx = Inl NOT_SIGNED"
    using T1 u1 by blast
  have "delegator fake unsigned_tx
      = Inl (if isDelegated unsigned_tx then NOT_SIGNED else NOT_DELEGATED)"
    using T1 u1 by blast
  then have 3: "delegator fake unsigned_tx = Inl NOT_DELEGATED"
    by (simp only: d1 if_False)
  have "delegator fake \<lparr>body = delegated_body, signature = None\<rparr>
      = Inl (if isDelegated \<lparr>body = delegated_body, signature = None\<rparr>
             then NOT_SIGNED else NOT_DELEGATED)"
    using T2 u2 by blast
  then have 4: "delegator fake \<lparr>body = delegated_body, signature = None\<rparr> = Inl NOT_SIGNED"
    by (simp only: d2 if_True)
  show ?thesis
    by (intro conjI) (rule u1, rule 1, rule 2, rule 3, rule u2, rule 4)
qed

text \<open>
  C8. On a signed transaction, \<open>origin\<close> is the address of the public key recovered from
  the first 65 signature bytes against \<open>getSignatureHash ()\<close>, and \<open>id\<close> is the hash,
  rendered in hex, of \<open>getSignatureHash ()\<close> followed by the raw bytes of \<open>origin\<close>; when
  \<open>origin\<close> fails (codec or recovery), \<open>id\<close> fails with the same error. On an unsigned
  transaction \<open>id\<close> fails with NotSigned.
\<close>

theorem id_hashes_signing_hash_and_origin:
  "(signature t = Some sig \<longrightarrow>
      origin c t =
        (case getSignatureHash c t None of
           Inl e \<Rightarrow> Inl e
         | Inr h \<Rightarrow> (case recover c h (take 65 sig) of
                       Inl e \<Rightarrow> Inl e
                     | Inr publicKey \<Rightarrow> Inr (fromPublicKey c publicKey))) \<and>
      id_tx c t =
        (case origin c t of
           Inl e \<Rightarrow> Inl e
         | Inr orig \<Rightarrow>
             (case getSignatureHash c t None of
                Inl e \<Rightarrow> Inl e
              | Inr h \<Rightarrow> Inr (blake2b256_hex c (h @ Buffer_from_hex (drop 2 orig))))) \<and>
      (\<forall>h orig. getSignatureHash c t None = Inr h \<and> origin c t = Inr orig \<longrightarrow>
         id_tx c t = Inr (blake2b256_hex c (h @ Buffer_from_hex (drop 2 orig))))) \<and>
   (signature t = None \<longrightarrow> id_tx c t = Inl NOT_SIGNED)"
proof (intro conjI impI allI)
  assume s: "signature t = Some sig"
  show o: "origin c t =
        (case getSignatureHash c t None of
           Inl e \<Rightarrow> Inl e
         | Inr h \<Rightarrow> (case recover c h (take 65 sig) of
                       Inl e \<Rightarrow> Inl e
                     | Inr publicKey \<Rightarrow> Inr (fromPublicKey c publicKey)))"
    using s by (simp add: origin_def)
  show "id_tx c t =
        (case origin c t of
           Inl e \<Rightarrow> Inl e
         | Inr orig \<Rightarrow>
             (case getSignatureHash c t None of
                Inl e \<Rightarrow> Inl e
              | Inr h \<Rightarrow> Inr (blake2b256_hex c (h @ Buffer_from_hex (drop 2 orig)))))"
  proof (cases "getSignatureHash c t None")
    case (Inl e)
    then show ?thesis
      using s by (simp add: id_tx_def isSigned_def o)
  next
    case (Inr h)
    then show ?thesis
      using s by (simp add: id_tx_def isSigned_def split: sum.split)
  qed
next
  fix h orig
  assume "signature t = Some sig"
    and "getSignatureHash c t None = Inr h \<and> origin c t = Inr orig"
  then show "id_tx c t = Inr (blake2b256_hex c (h @ Buffer_from_hex (drop 2 orig)))"
    by (simp add: id_tx_def isSigned_def)
next
  assume "signature t = None"
  then show "id_tx c t = Inl NOT_SIGNED"
    by (simp add: id_tx_def isSigned_def)
qed

theorem id_hashes_signing_hash_and_origin_witness:
  "signature signed_tx = Some (replicate 65 7) \<and>
   getSignatureHash fake signed_tx None = Inr [1, 74] \<and>
   origin fake signed_tx = Inr ''0x0707070707070707070707070707070707070707'' \<and>
   id_tx fake signed_tx = Inr ''0x16014a0707'' \<and>
   signature unsigned_tx = None \<and>
   id_tx fake unsigned_tx = Inl NOT_SIGNED"
proof -
  have s: "signature signed_tx = Some (replicate 65 7)"
    by (simp add: signed_tx_def)
  have u: "signature unsigned_tx = None"
    by (simp add: unsigned_tx_def)
  have h: "getSignatureHash fake signed_tx None = Inr [1, 74]"
    by code_simp
  have o: "origin fake signed_tx = Inr ''0x0707070707070707070707070707070707070707''"
    by code_simp
  have v: "blake2b256_hex fake
      ([1, 74] @ Buffer_from_hex (drop 2 ''0x0707070707070707070707070707070707070707''))
      = ''0x16014a0707''"
    by code_simp
  note T1 = id_hashes_signing_hash_and_origin
    [where t = signed_tx and sig = "replicate 65 7" and c = fake]
  note T2 = id_hashes_signing_hash_and_origin
    [where t = unsigned_tx and sig = "replicate 65 7" and c = fake]
  have "id_tx fake signed_tx = Inr (blake2b256_hex fake
      ([1, 74] @ Buffer_from_hex (drop 2 ''0x0707070707070707070707070707070707070707'')))"
    using T1 s h o by blast
  then have 1: "id_tx fake signed_tx = Inr ''0x16014a0707''"
    by (simp only: v)
  have 2: "id_tx fake unsigned_tx = Inl NOT_SIGNED"
    using T2 u by blast
  show ?thesis
    by (intro conjI) (rule s, rule h, rule o, rule 1, rule u, rule 2)
qed

end
